theory Spec2Isabelle
  imports Main "HOL-Library.Sublist"
begin

section \<open>terragrunt-status: the dependency orderer and the per-stack status prober\<close>

text \<open>
  A shallow embedding of \<^verbatim>\<open>bin/terragrunt-status.mjs\<close>. The functions keep the names
  of the script. The spinner and the coloured console output are presentation and are
  left out; everything the script imports from Node or from npm packages
  (\<^verbatim>\<open>child_process.spawn\<close>, \<^verbatim>\<open>dotparser\<close>, \<^verbatim>\<open>toposort\<close>, \<^verbatim>\<open>path.relative\<close>,
  \<^verbatim>\<open>path.resolve\<close>, the \<^verbatim>\<open>yellow\<close> style of chalk) is a field of the record \<open>ctx\<close>,
  next to the module-level variables \<^verbatim>\<open>terragrunt\<close>, \<^verbatim>\<open>cwd\<close> and the flags read
  from \<^verbatim>\<open>argv\<close>.
\<close>

subsection \<open>JavaScript strings\<close>

text \<open>\<^verbatim>\<open>s.includes(p)\<close>: \<open>p\<close> occurs in \<open>s\<close> as a contiguous substring.\<close>

fun js_includes :: "string \<Rightarrow> string \<Rightarrow> bool" where
  "js_includes [] p = (p = [])"
| "js_includes (c # cs) p = (prefix p (c # cs) \<or> js_includes cs p)"

text \<open>\<^verbatim>\<open>s.split('\n')\<close>: the pieces between line feeds; never the empty array.\<close>

fun js_split :: "string \<Rightarrow> string list" where
  "js_split [] = [[]]"
| "js_split (c # cs) =
     (if c = CHR 0x0A then [] # js_split cs
      else (case js_split cs of [] \<Rightarrow> [[c]] | w # ws \<Rightarrow> (c # w) # ws))"

subsection \<open>Values that are thrown, and how an asynchronous call ends\<close>

text \<open>An \<^verbatim>\<open>Error\<close> object: its \<^verbatim>\<open>name\<close>, its optional \<^verbatim>\<open>code\<close> (set on Node's system
  errors, for instance \<^verbatim>\<open>'ENOENT'\<close>) and its \<^verbatim>\<open>message\<close>. Such an object has no
  \<^verbatim>\<open>stderr\<close> or \<^verbatim>\<open>stdout\<close> property.\<close>

datatype js_error = JsError (name: string) (code: "string option") (message: string)

definition TypeError :: "string \<Rightarrow> js_error" where
  "TypeError m = JsError ''TypeError'' None m"

text \<open>The object \<^verbatim>\<open>ret\<close> of \<^verbatim>\<open>execProcess\<close>. The property \<^verbatim>\<open>err\<close> is absent (\<open>None\<close>)
  until the resolving branch assigns it.\<close>

record SubprocessResult =
  stdout :: string
  stderr :: string
  exitCode :: int
  err :: "js_error option"

text \<open>What a \<^verbatim>\<open>catch\<close> can receive: an error object, or the plain result object that
  \<^verbatim>\<open>execProcess\<close> rejects with.\<close>

datatype thrown = Thrown_error js_error | Thrown_result SubprocessResult

text \<open>How an \<^verbatim>\<open>async\<close> function ends: its promise is fulfilled, or rejected, or never
  settles (a child process that never closes), or the function ends the whole process
  with \<^verbatim>\<open>process.exit\<close>.\<close>

datatype 'a outcome = Fulfilled 'a | Rejected thrown | Pending | Exited int

text \<open>A call of the script: the executable, its arguments and the working directory of
  one \<^verbatim>\<open>spawn\<close>. A task is the outcome of an asynchronous function together with the
  child processes it started, in the order in which it started them.\<close>

type_synonym call = "string \<times> string list \<times> string"
type_synonym 'a task = "'a outcome \<times> call list"

text \<open>\<^verbatim>\<open>await t\<close> followed by the rest \<open>k\<close> of the function body.\<close>

definition await :: "'a task \<Rightarrow> ('a \<Rightarrow> 'b task) \<Rightarrow> 'b task" where
  "await t k =
     (case t of
        (Fulfilled x, cs) \<Rightarrow> (case k x of (r, cs') \<Rightarrow> (r, cs @ cs'))
      | (Rejected e, cs) \<Rightarrow> (Rejected e, cs)
      | (Pending, cs) \<Rightarrow> (Pending, cs)
      | (Exited n, cs) \<Rightarrow> (Exited n, cs))"

subsection \<open>The child process and the parsed graph\<close>

text \<open>The events a \<^verbatim>\<open>ChildProcess\<close> emits to the four listeners of \<^verbatim>\<open>execProcess\<close>.
  The code of \<^verbatim>\<open>'close'\<close> is \<^verbatim>\<open>null\<close> (\<open>None\<close>) when a signal ended the process.
  \<^verbatim>\<open>spawn\<close> itself either throws (\<open>Inl\<close>; Node does so for instance with ENOTDIR, when the
  working directory is a file) or returns the child process, which is kept as the list
  of the events it is going to emit (\<open>Inr\<close>).\<close>

datatype event =
    Stdout_data string
  | Stderr_data string
  | Error_event js_error
  | Close "int option"

text \<open>A statement of the graph as \<^verbatim>\<open>dotparser\<close> returns it. An element of an
  \<^verbatim>\<open>edge_list\<close> is kept as its \<^verbatim>\<open>id\<close> property, which an anonymous subgraph does not
  have (\<open>None\<close>).\<close>

datatype stmt =
    is_edge_stmt: Edge_stmt (edge_list: "string option list")
  | is_node_stmt: Node_stmt (node_id: string)
  | Other_stmt

record graph =
  children :: "stmt list"

record ctx =
  terragrunt :: string
  cwd :: string
  refresh :: bool
  deploy_order :: bool
  destroy_order :: bool
  spawn :: "string \<Rightarrow> string list \<Rightarrow> string \<Rightarrow> js_error + event list"
  dotparser :: "string \<Rightarrow> js_error + graph list"
  toposort :: "string list list \<Rightarrow> js_error + string list"
  relative :: "string \<Rightarrow> string \<Rightarrow> string"
  resolve :: "string \<Rightarrow> string \<Rightarrow> string"
  yellow :: "string \<Rightarrow> string"

subsection \<open>execProcess\<close>

text \<open>The listeners, run over the events in the order of their arrival: \<open>ret\<close> and
  \<open>error\<close> are the two variables of the promise executor. The promise settles at the
  first \<^verbatim>\<open>'close'\<close>; without one it stays pending.
  \<^verbatim>\<open>ret.exitCode = code || 0\<close> turns \<^verbatim>\<open>null\<close> into 0, and \<^verbatim>\<open>code !== 0\<close> holds for
  \<^verbatim>\<open>null\<close>. \<^verbatim>\<open>Object.assign(error, ret)\<close> copies the three properties of \<open>ret\<close> onto the
  error object, from where the script never reads them; the error is kept as it was
  emitted.\<close>

fun listeners ::
  "event list \<Rightarrow> SubprocessResult \<Rightarrow> js_error option \<Rightarrow> bool \<Rightarrow> SubprocessResult outcome"
where
  "listeners [] ret error rejectIfExitNonzero = Pending"
| "listeners (Stderr_data d # es) ret error rejectIfExitNonzero =
     listeners es (ret\<lparr>stderr := stderr ret @ d\<rparr>) error rejectIfExitNonzero"
| "listeners (Stdout_data d # es) ret error rejectIfExitNonzero =
     listeners es (ret\<lparr>stdout := stdout ret @ d\<rparr>) error rejectIfExitNonzero"
| "listeners (Error_event e # es) ret error rejectIfExitNonzero =
     listeners es ret (Some e) rejectIfExitNonzero"
| "listeners (Close c # es) ret error rejectIfExitNonzero =
     (let ret = ret\<lparr>exitCode := (case c of None \<Rightarrow> 0 | Some n \<Rightarrow> n)\<rparr> in
      if c \<noteq> Some 0 \<and> rejectIfExitNonzero then Rejected (Thrown_result ret)
      else Fulfilled (ret\<lparr>err := error\<rparr>))"

text \<open>\<^verbatim>\<open>spawn\<close> is called inside the promise executor: when it throws, the promise is
  rejected with the thrown error, whatever \<^verbatim>\<open>rejectIfExitNonzero\<close> is.\<close>

definition execProcess ::
  "ctx \<Rightarrow> string \<Rightarrow> string list \<Rightarrow> string \<Rightarrow> bool \<Rightarrow> SubprocessResult task"
where
  "execProcess c file args dir rejectIfExitNonzero =
     ((case spawn c file args dir of
         Inl e \<Rightarrow> Rejected (Thrown_error e)
       | Inr run \<Rightarrow>
           listeners run \<lparr>stdout = [], stderr = [], exitCode = 255, err = None\<rparr> None
             rejectIfExitNonzero),
      [(file, args, dir)])"

subsection \<open>isDeployed, getPlan, getStatus\<close>

record deployment_status =
  deployed :: bool
  success :: bool
  failReason :: "string option"

record plan_status =
  hasChanges :: bool
  success :: bool

record stack_status =
  isDeployedResult :: deployment_status
  planResult :: "plan_status option"

definition no_state_file :: string where
  "no_state_file = ''No state file found.''"

definition parent_not_deployed :: string where
  "parent_not_deployed = ''Parent stack not deployed.''"

definition no_credentials :: string where
  "no_credentials = ''Could not find AWS credentials.''"

definition init_required :: "ctx \<Rightarrow> string" where
  "init_required c =
     ''Initialization required. Run '' @ yellow c ''terragrunt init'' @ '' in this folder.''"

definition unknown_reason :: string where
  "unknown_reason = ''Unknown''"

definition empty_state :: string where
  "empty_state =
     ''Terragrunt exited zero, but Terraform did not output anything from '' @ [CHR 0x22]
       @ ''terragrunt state list'' @ [CHR 0x22] @ ''.''"

text \<open>The body of \<^verbatim>\<open>isDeployed\<close> after its \<^verbatim>\<open>await\<close>: the classification of the result of
  \<^verbatim>\<open>terragrunt state list\<close>.\<close>

definition classify :: "ctx \<Rightarrow> SubprocessResult \<Rightarrow> deployment_status" where
  "classify c result =
     (let ret = \<lparr>deployed = False, success = False, failReason = None\<rparr> in
      if js_includes (stderr result) ''No state file was found!''
      then ret\<lparr>failReason := Some no_state_file\<rparr>
      else if js_includes (stderr result) ''but detected no outputs''
      then ret\<lparr>failReason := Some parent_not_deployed\<rparr>
      else if js_includes (stderr result) ''Error finding AWS credentials''
      then ret\<lparr>failReason := Some no_credentials\<rparr>
      else if js_includes (stderr result) ''Initialization required''
              \<or> js_includes (stderr result) ''Could not load plugin''
      then ret\<lparr>failReason := Some (init_required c)\<rparr>
      else if exitCode result \<noteq> 0
      then ret\<lparr>failReason := Some unknown_reason\<rparr>
      else (let ret = ret\<lparr>deployment_status.success := True\<rparr> in
            if length (js_split (stdout result)) > 1
            then ret\<lparr>deployed := True\<rparr>
            else ret\<lparr>failReason := Some empty_state\<rparr>))"

definition isDeployed :: "ctx \<Rightarrow> string \<Rightarrow> deployment_status task" where
  "isDeployed c dir =
     await (execProcess c (terragrunt c) [''state'', ''list''] dir False)
       (\<lambda>result. (Fulfilled (classify c result), []))"

definition tgPlanArgs :: "ctx \<Rightarrow> string list" where
  "tgPlanArgs c =
     [''plan'', ''-detailed-exitcode'', ''-compact-warnings'']
       @ (if \<not> refresh c then [''-refresh=false'', ''-lock=false''] else [])"

text \<open>The body of \<^verbatim>\<open>getPlan\<close> after its \<^verbatim>\<open>await\<close>.\<close>

definition plan_of :: "SubprocessResult \<Rightarrow> plan_status" where
  "plan_of result =
     (let ret = \<lparr>hasChanges = False, success = False\<rparr> in
      if exitCode result = 0 then ret\<lparr>plan_status.success := True\<rparr>
      else if exitCode result = 2 then ret\<lparr>plan_status.success := True, hasChanges := True\<rparr>
      else ret)"

definition getPlan :: "ctx \<Rightarrow> string \<Rightarrow> plan_status task" where
  "getPlan c dir =
     await (execProcess c (terragrunt c) (tgPlanArgs c) dir False)
       (\<lambda>result. (Fulfilled (plan_of result), []))"

definition getStatus :: "ctx \<Rightarrow> string \<Rightarrow> stack_status task" where
  "getStatus c dir =
     await (isDeployed c dir) (\<lambda>d.
       if deployed d
       then await (getPlan c dir) (\<lambda>p.
              (Fulfilled \<lparr>isDeployedResult = d, planResult = Some p\<rparr>, []))
       else (Fulfilled \<lparr>isDeployedResult = d, planResult = None\<rparr>, []))"

text \<open>The calls of the two probes of a stack directory.\<close>

definition state_call :: "ctx \<Rightarrow> string \<Rightarrow> call" where
  "state_call c dir = (terragrunt c, [''state'', ''list''], dir)"

definition plan_call :: "ctx \<Rightarrow> string \<Rightarrow> call" where
  "plan_call c dir = (terragrunt c, tgPlanArgs c, dir)"

subsection \<open>getDependencyTree\<close>

record OrderedDependencies =
  destroyOrder :: "string list"
  deployOrder :: "string list"
  noDeps :: "string list"

text \<open>An array is an object: \<^verbatim>\<open>Set\<close> compares two arrays by reference, never by
  contents. An array is therefore kept as a pair of its reference and its contents.
  \<^verbatim>\<open>xs.map(f)\<close> with a callback that builds an array creates one new array for each
  element, so the array made for the element at index \<open>i\<close> gets the reference \<open>i\<close>
  (\<open>enumerate 0\<close>).\<close>

type_synonym 'a obj = "nat \<times> 'a"

text \<open>\<^verbatim>\<open>new Set(xs)\<close> adds the elements of \<open>xs\<close> one by one and keeps insertion order; an
  object is added unless the same reference is already present.\<close>

definition js_Set_add :: "'a obj list \<Rightarrow> 'a obj \<Rightarrow> 'a obj list" where
  "js_Set_add S x = (if fst x \<in> fst ` set S then S else S @ [x])"

definition js_Set :: "'a obj list \<Rightarrow> 'a obj list" where
  "js_Set xs = foldl js_Set_add [] xs"

text \<open>A \<^verbatim>\<open>map\<close> whose callback may throw stops at the first throw.\<close>

fun collect :: "('e + 'a) list \<Rightarrow> 'e + 'a list" where
  "collect [] = Inr []"
| "collect (x # xs) =
     (case x of
        Inl e \<Rightarrow> Inl e
      | Inr v \<Rightarrow> (case collect xs of Inl e \<Rightarrow> Inl e | Inr vs \<Rightarrow> Inr (v # vs)))"

text \<open>\<^verbatim>\<open>path.relative(cwd, ids.id)\<close>: Node throws a \<^verbatim>\<open>TypeError\<close> with the code
  \<^verbatim>\<open>ERR_INVALID_ARG_TYPE\<close> when the second argument is not a string.\<close>

definition relative_id :: "ctx \<Rightarrow> string option \<Rightarrow> js_error + string" where
  "relative_id c i =
     (case i of
        None \<Rightarrow> Inl (JsError ''TypeError'' (Some ''ERR_INVALID_ARG_TYPE'')
                  ''The to argument must be of type string. Received undefined'')
      | Some s \<Rightarrow> Inr (relative c (cwd c) s))"

definition onlyEdges :: "ctx \<Rightarrow> graph \<Rightarrow> js_error + string list obj list" where
  "onlyEdges c g =
     (case collect (map (\<lambda>arr. collect (map (relative_id c) arr))
                     (map edge_list (filter is_edge_stmt (children g)))) of
        Inl e \<Rightarrow> Inl e
      | Inr arrs \<Rightarrow> Inr (js_Set (enumerate 0 arrs)))"

text \<open>Lines 109 to 126: from the parsed graph to the returned object.
  \<^verbatim>\<open>parsedGraph[0].children\<close> throws when \<^verbatim>\<open>dotparser\<close> returned no graph.\<close>

definition ordered_dependencies :: "ctx \<Rightarrow> graph list \<Rightarrow> thrown + OrderedDependencies" where
  "ordered_dependencies c parsedGraph =
     (case parsedGraph of
        [] \<Rightarrow> Inl (Thrown_error (TypeError ''Cannot read properties of undefined (reading children)''))
      | g # _ \<Rightarrow>
         (case onlyEdges c g of
            Inl e \<Rightarrow> Inl (Thrown_error e)
          | Inr edges \<Rightarrow>
             (case toposort c (map snd edges) of
                Inl e \<Rightarrow> Inl (Thrown_error e)
              | Inr ordered \<Rightarrow>
                 (let otherNodes =
                        filter (\<lambda>obj. obj \<notin> set ordered)
                          (map (\<lambda>obj. relative c (cwd c) (node_id obj))
                             (filter is_node_stmt (children g)))
                  in Inr \<lparr>destroyOrder = ordered,
                          deployOrder = rev ordered,
                          noDeps = otherNodes\<rparr>))))"

definition graph_call :: "ctx \<Rightarrow> call" where
  "graph_call c =
     (terragrunt c, [''graph-dependencies'', ''--terragrunt-ignore-external-dependencies''], cwd c)"

definition try_block :: "ctx \<Rightarrow> OrderedDependencies task" where
  "try_block c =
     await (execProcess c (terragrunt c)
              [''graph-dependencies'', ''--terragrunt-ignore-external-dependencies''] (cwd c) True)
       (\<lambda>result.
          (case dotparser c (stdout result) of
             Inl e \<Rightarrow> Rejected (Thrown_error e)
           | Inr parsedGraph \<Rightarrow>
              (case ordered_dependencies c parsedGraph of
                 Inl e \<Rightarrow> Rejected e
               | Inr returnVal \<Rightarrow> Fulfilled returnVal), []))"

text \<open>The \<^verbatim>\<open>catch\<close> block. \<^verbatim>\<open>e?.code === 'ENOENT'\<close> reads a property that the rejected
  result object does not have. \<^verbatim>\<open>e?.stderr.includes(...)\<close> throws a \<^verbatim>\<open>TypeError\<close> on an
  error object, which has no \<^verbatim>\<open>stderr\<close>: the \<^verbatim>\<open>?.\<close> guards \<open>e\<close> only. That error leaves
  the \<^verbatim>\<open>catch\<close> block, so \<^verbatim>\<open>process.exit(1)\<close> is not reached and the promise is
  rejected. The last two branches differ in what they print.\<close>

definition catch_block :: "thrown \<Rightarrow> 'a outcome" where
  "catch_block e =
     (case e of
        Thrown_error x \<Rightarrow>
          if code x = Some ''ENOENT'' then Exited 1
          else Rejected (Thrown_error
                 (TypeError ''Cannot read properties of undefined (reading includes)''))
      | Thrown_result r \<Rightarrow>
          if js_includes (stderr r)
               ''Could not find any subfolders with Terragrunt configuration files''
          then Exited 1
          else Exited 1)"

definition getDependencyTree :: "ctx \<Rightarrow> OrderedDependencies task" where
  "getDependencyTree c =
     (case try_block c of
        (Rejected e, cs) \<Rightarrow> (catch_block e, cs)
      | t \<Rightarrow> t)"

subsection \<open>getStatusAll and go\<close>

text \<open>\<^verbatim>\<open>Promise.all\<close>: fulfilled with all values once every promise is fulfilled,
  rejected as soon as one is rejected, pending otherwise. The calls are listed stack by
  stack; every stack's task runs on its own child processes, so the order in which the
  tasks of different stacks interleave does not change any outcome.\<close>

fun Promise_all :: "'a task list \<Rightarrow> 'a list task" where
  "Promise_all [] = (Fulfilled [], [])"
| "Promise_all ((out, cs) # ts) =
     (case Promise_all ts of
        (rest, cs') \<Rightarrow>
          ((case out of
              Fulfilled x \<Rightarrow> map_outcome ((#) x) rest
            | Rejected e \<Rightarrow> Rejected e
            | Exited n \<Rightarrow> Exited n
            | Pending \<Rightarrow>
               (case rest of Rejected e \<Rightarrow> Rejected e | Exited n \<Rightarrow> Exited n | _ \<Rightarrow> Pending)),
           cs @ cs'))"

text \<open>The value is the local \<^verbatim>\<open>results\<close>; no result object has a \<^verbatim>\<open>stacktrace\<close>, so
  the loop after \<^verbatim>\<open>Promise.all\<close> writes nothing.\<close>

definition getStatusAll :: "ctx \<Rightarrow> OrderedDependencies \<Rightarrow> stack_status list task" where
  "getStatusAll c dependencyTree =
     Promise_all (map (\<lambda>stack. getStatus c (resolve c (cwd c) stack))
                    (deployOrder dependencyTree))"

text \<open>\<^verbatim>\<open>go\<close> once \<^verbatim>\<open>failEarly\<close> has found both executables.\<close>

definition go :: "ctx \<Rightarrow> stack_status list task" where
  "go c =
     await (getDependencyTree c) (\<lambda>dependencyTree.
       if deploy_order c \<or> destroy_order c then (Exited 0, [])
       else getStatusAll c
              (dependencyTree
                 \<lparr>deployOrder := deployOrder dependencyTree @ noDeps dependencyTree,
                  destroyOrder := destroyOrder dependencyTree @ noDeps dependencyTree\<rparr>))"

subsection \<open>Notions of the specification\<close>

text \<open>The position of the first occurrence of \<open>x\<close> (the length when there is none).\<close>

fun index_of :: "'a \<Rightarrow> 'a list \<Rightarrow> nat" where
  "index_of x [] = 0"
| "index_of x (y # ys) = (if x = y then 0 else Suc (index_of x ys))"

text \<open>Every node identifier mentioned in the raw graph, as an edge endpoint or as a
  node declaration, made relative to the scan root.\<close>

fun mentioned :: "stmt \<Rightarrow> string list" where
  "mentioned (Edge_stmt ids) = concat (map (case_option [] (\<lambda>i. [i])) ids)"
| "mentioned (Node_stmt n) = [n]"
| "mentioned Other_stmt = []"


text \<open>The pair that an orderer reads from an edge array: its first two elements.\<close>

fun edge_pair :: "'a list \<Rightarrow> ('a \<times> 'a) list" where
  "edge_pair (a # b # _) = [(a, b)]"
| "edge_pair _ = []"

definition edge_pairs :: "'a list list \<Rightarrow> ('a \<times> 'a) list" where
  "edge_pairs E = concat (map edge_pair E)"

definition nodes_of :: "('a \<times> 'a) list \<Rightarrow> 'a list" where
  "nodes_of P = concat (map (\<lambda>(a, b). [a, b]) P)"

definition has_cycle :: "('a \<times> 'a) list \<Rightarrow> bool" where
  "has_cycle P = list_ex (\<lambda>a. (a, a) \<in> (set P)\<^sup>+) (nodes_of P)"






text \<open>What Node emits for a child process that could not be launched and whose
  \<^verbatim>\<open>spawn\<close> did not throw: \<^verbatim>\<open>'error'\<close> with the system error, then \<^verbatim>\<open>'close'\<close> with the
  error number as the code, which is negative (-2 for ENOENT).\<close>

definition failed_launch :: "js_error \<Rightarrow> int \<Rightarrow> event list" where
  "failed_launch e errno = [Error_event e, Close (Some errno)]"

text \<open>A normal termination: the child process was launched, emits no \<^verbatim>\<open>'error'\<close>, and
  closes with an exit code between 0 and 255, or with \<^verbatim>\<open>null\<close> after a signal.\<close>

fun normal_termination :: "event list \<Rightarrow> bool" where
  "normal_termination [] = False"
| "normal_termination (Stderr_data d # es) = normal_termination es"
| "normal_termination (Stdout_data d # es) = normal_termination es"
| "normal_termination (Error_event e # es) = False"
| "normal_termination (Close c # es) = (case c of None \<Rightarrow> True | Some n \<Rightarrow> 0 \<le> n \<and> n \<le> 255)"

subsection \<open>The topological orderer\<close>

definition CyclicGraph :: js_error where
  "CyclicGraph = JsError ''Error'' None ''Cyclic dependency''"

text \<open>A node can be listed next when no node still to be listed has an edge to it.\<close>

definition available :: "('a \<times> 'a) list \<Rightarrow> 'a list \<Rightarrow> 'a \<Rightarrow> bool" where
  "available P remaining v = (\<not> list_ex (\<lambda>(a, b). b = v \<and> a \<in> set remaining) P)"

text \<open>Modelled from the spec: the topological orderer \<^verbatim>\<open>order\<close> of section 4.2, which
  the script takes from the npm package \<^verbatim>\<open>toposort\<close>; the package is not among the
  sources. The spec asks for a standard topological sort (Kahn's algorithm is accepted)
  in which an edge (A, B) puts A before B, deterministic with ties broken by first-seen
  order, failing with \<open>CyclicGraph\<close> when a cycle is detected.\<close>

function kahn :: "('a \<times> 'a) list \<Rightarrow> 'a list \<Rightarrow> js_error + 'a list" where
  "kahn P [] = Inr []"
| "kahn P (r # rs) =
     (case find (available P (r # rs)) (r # rs) of
        None \<Rightarrow> Inl CyclicGraph
      | Some v \<Rightarrow>
         (case kahn P (removeAll v (r # rs)) of
            Inl e \<Rightarrow> Inl e
          | Inr order \<Rightarrow> Inr (v # order)))"
  by pat_completeness auto
termination
proof (relation "measure (\<lambda>(P, remaining). length remaining)")
  fix P :: "('a \<times> 'a) list" and r v :: 'a and rs :: "'a list"
  assume "find (available P (r # rs)) (r # rs) = Some v"
  then have "v \<in> set (r # rs)"
    unfolding find_Some_iff by (metis nth_mem)
  then have "length (removeAll v (r # rs)) < length (r # rs)"
    by (rule length_removeAll_less)
  then show "((P, removeAll v (r # rs)), P, r # rs) \<in> measure (\<lambda>(P, remaining). length remaining)"
    by simp
qed simp

text \<open>Modelled from the spec: the call \<^verbatim>\<open>toposort(onlyEdges)\<close> of that orderer on the
  edge arrays, the nodes taken in first-seen order.\<close>

definition order_model :: "string list list \<Rightarrow> js_error + string list" where
  "order_model E =
     kahn (edge_pairs E) (rev (remdups (rev (nodes_of (edge_pairs E)))))"

subsection \<open>A concrete run\<close>

text \<open>Three scan roots with a small graph each, written the way
  \<^verbatim>\<open>terragrunt graph-dependencies\<close> writes them (absolute paths in double quotes), and
  a scan root (\<^verbatim>\<open>/missing\<close>) that does not exist. Under \<^verbatim>\<open>/infra\<close> stack \<open>b\<close> depends on stack \<open>a\<close> and
  stack \<open>c\<close> stands alone; \<open>a\<close> is deployed and its plan has changes, \<open>b\<close> has no state
  file, and the directory of \<open>c\<close> is missing, so that its child process cannot be
  launched. The parser is a table of the three texts.\<close>

definition quoted :: "string \<Rightarrow> string" where
  "quoted s = [CHR 0x22] @ s @ [CHR 0x22]"

definition acyclic_text :: string where
  "acyclic_text =
     ''digraph { '' @ quoted ''/infra/a'' @ '' ; '' @ quoted ''/infra/b'' @ '' ; ''
       @ quoted ''/infra/b'' @ '' -> '' @ quoted ''/infra/a'' @ ''; ''
       @ quoted ''/infra/c'' @ '' ; }''"

definition cyclic_text :: string where
  "cyclic_text =
     ''digraph { '' @ quoted ''/cyclic/a'' @ '' ; ''
       @ quoted ''/cyclic/a'' @ '' -> '' @ quoted ''/cyclic/b'' @ ''; ''
       @ quoted ''/cyclic/b'' @ '' ; ''
       @ quoted ''/cyclic/b'' @ '' -> '' @ quoted ''/cyclic/a'' @ ''; }''"

definition duplicate_text :: string where
  "duplicate_text =
     ''digraph { '' @ quoted ''/dup/a'' @ '' ; ''
       @ quoted ''/dup/a'' @ '' -> '' @ quoted ''/dup/b'' @ ''; ''
       @ quoted ''/dup/a'' @ '' -> '' @ quoted ''/dup/b'' @ ''; ''
       @ quoted ''/dup/b'' @ '' ; }''"

definition acyclic_graph :: graph where
  "acyclic_graph =
     \<lparr>children = [Node_stmt ''/infra/a'', Node_stmt ''/infra/b'',
                  Edge_stmt [Some ''/infra/b'', Some ''/infra/a''],
                  Node_stmt ''/infra/c'']\<rparr>"

definition cyclic_graph :: graph where
  "cyclic_graph =
     \<lparr>children = [Node_stmt ''/cyclic/a'',
                  Edge_stmt [Some ''/cyclic/a'', Some ''/cyclic/b''],
                  Node_stmt ''/cyclic/b'',
                  Edge_stmt [Some ''/cyclic/b'', Some ''/cyclic/a'']]\<rparr>"

definition duplicate_graph :: graph where
  "duplicate_graph =
     \<lparr>children = [Node_stmt ''/dup/a'',
                  Edge_stmt [Some ''/dup/a'', Some ''/dup/b''],
                  Edge_stmt [Some ''/dup/a'', Some ''/dup/b''],
                  Node_stmt ''/dup/b'']\<rparr>"

definition chain_text :: string where
  "chain_text =
     ''digraph { '' @ quoted ''/chain/a'' @ '' -> '' @ quoted ''/chain/b'' @ '' -> ''
       @ quoted ''/chain/c'' @ ''; }''"

definition chain_graph :: graph where
  "chain_graph =
     \<lparr>children = [Edge_stmt [Some ''/chain/a'', Some ''/chain/b'', Some ''/chain/c'']]\<rparr>"

text \<open>The graph of \<^verbatim>\<open>/infra\<close> under another scan root.\<close>

definition stacks_text :: "string \<Rightarrow> string" where
  "stacks_text root =
     ''digraph { '' @ quoted (root @ ''/a'') @ '' ; '' @ quoted (root @ ''/b'') @ '' ; ''
       @ quoted (root @ ''/b'') @ '' -> '' @ quoted (root @ ''/a'') @ ''; ''
       @ quoted (root @ ''/c'') @ '' ; }''"

definition stacks_graph :: "string \<Rightarrow> graph" where
  "stacks_graph root =
     \<lparr>children = [Node_stmt (root @ ''/a''), Node_stmt (root @ ''/b''),
                  Edge_stmt [Some (root @ ''/b''), Some (root @ ''/a'')],
                  Node_stmt (root @ ''/c'')]\<rparr>"

definition demo_dotparser :: "string \<Rightarrow> js_error + graph list" where
  "demo_dotparser text =
     (if text = acyclic_text then Inr [acyclic_graph]
      else if text = cyclic_text then Inr [cyclic_graph]
      else if text = duplicate_text then Inr [duplicate_graph]
      else if text = chain_text then Inr [chain_graph]
      else if text = stacks_text ''/notdir'' then Inr [stacks_graph ''/notdir'']
      else if text = stacks_text ''/hang'' then Inr [stacks_graph ''/hang'']
      else Inl (JsError ''SyntaxError'' None ''Expected a graph''))"

definition ENOENT :: js_error where
  "ENOENT = JsError ''Error'' (Some ''ENOENT'') ''spawn terragrunt ENOENT''"

definition ENOTDIR :: js_error where
  "ENOTDIR = JsError ''Error'' (Some ''ENOTDIR'') ''spawn ENOTDIR''"

definition launch_failure :: "event list" where
  "launch_failure = failed_launch ENOENT (- 2)"

text \<open>Under \<^verbatim>\<open>/notdir\<close> and \<^verbatim>\<open>/hang\<close> the stacks \<open>a\<close> and \<open>b\<close> are as under \<^verbatim>\<open>/infra\<close>;
  \<^verbatim>\<open>/notdir/c\<close> is a file, so that \<^verbatim>\<open>spawn\<close> throws there, and the state listing in
  \<^verbatim>\<open>/hang/c\<close> never closes.\<close>

definition demo_spawn :: "string \<Rightarrow> string list \<Rightarrow> string \<Rightarrow> js_error + event list" where
  "demo_spawn file args dir =
     (if args = [''graph-dependencies'', ''--terragrunt-ignore-external-dependencies'']
      then (if dir = ''/infra'' then Inr [Stdout_data acyclic_text, Close (Some 0)]
            else if dir = ''/cyclic'' then Inr [Stdout_data cyclic_text, Close (Some 0)]
            else if dir = ''/dup'' then Inr [Stdout_data duplicate_text, Close (Some 0)]
            else if dir = ''/chain'' then Inr [Stdout_data chain_text, Close (Some 0)]
            else if dir = ''/notdir'' \<or> dir = ''/hang''
            then Inr [Stdout_data (stacks_text dir), Close (Some 0)]
            else Inr launch_failure)
      else if args = [''state'', ''list'']
      then (if dir = ''/infra/a'' \<or> dir = ''/notdir/a'' \<or> dir = ''/hang/a''
            then Inr [Stdout_data ''aws_s3_bucket.logs'', Stdout_data [CHR 0x0A],
                      Close (Some 0)]
            else if dir = ''/infra/b'' \<or> dir = ''/notdir/b'' \<or> dir = ''/hang/b''
            then Inr [Stderr_data ''No state file was found!'', Close (Some 1)]
            else if dir = ''/infra/empty''
            then Inr [Stdout_data ''  '', Close (Some 0)]
            else if dir = ''/notdir/c'' then Inl ENOTDIR
            else if dir = ''/hang/c'' then Inr [Stderr_data ''Acquiring state lock'']
            else Inr launch_failure)
      else Inr [Stdout_data ''Plan: 1 to add'', Close (Some 2)])"

definition demo_relative :: "string \<Rightarrow> string \<Rightarrow> string" where
  "demo_relative from to =
     (if prefix (from @ ''/'') to then drop (length from + 1) to else to)"

definition demo_resolve :: "string \<Rightarrow> string \<Rightarrow> string" where
  "demo_resolve from to = from @ ''/'' @ to"

definition demo :: "string \<Rightarrow> ctx" where
  "demo root =
     \<lparr>terragrunt = ''terragrunt'', cwd = root, refresh = False,
      deploy_order = False, destroy_order = False,
      spawn = demo_spawn, dotparser = demo_dotparser, toposort = order_model,
      relative = demo_relative, resolve = demo_resolve, yellow = (\<lambda>s. s)\<rparr>"

section \<open>Properties\<close>

subsection \<open>Awaiting, and the calls of the probes\<close>

lemma await_outcome:
  "fst (await t k) = (case fst t of Fulfilled x \<Rightarrow> fst (k x) | Rejected e \<Rightarrow> Rejected e
      | Pending \<Rightarrow> Pending | Exited n \<Rightarrow> Exited n)"
  by (cases t; cases "fst t") (auto simp: await_def split: prod.splits)

lemma await_calls:
  "snd (await t k) = (case fst t of Fulfilled x \<Rightarrow> snd t @ snd (k x) | _ \<Rightarrow> snd t)"
  by (cases t; cases "fst t") (auto simp: await_def split: prod.splits)

lemma isDeployed_outcome:
  "fst (isDeployed c dir) =
     map_outcome (classify c) (fst (execProcess c (terragrunt c) [''state'', ''list''] dir False))"
  by (simp add: isDeployed_def await_outcome split: outcome.splits)

lemma isDeployed_calls: "snd (isDeployed c dir) = [state_call c dir]"
  by (simp add: isDeployed_def await_calls execProcess_def state_call_def split: outcome.splits)

lemma getPlan_outcome:
  "fst (getPlan c dir) =
     map_outcome plan_of (fst (execProcess c (terragrunt c) (tgPlanArgs c) dir False))"
  by (simp add: getPlan_def await_outcome split: outcome.splits)

lemma getPlan_calls: "snd (getPlan c dir) = [plan_call c dir]"
  by (simp add: getPlan_def await_calls execProcess_def plan_call_def split: outcome.splits)

lemma getStatus_calls:
  "snd (getStatus c dir) =
     state_call c dir #
       (case fst (isDeployed c dir) of
          Fulfilled d \<Rightarrow> if deployed d then [plan_call c dir] else []
        | _ \<Rightarrow> [])"
  by (simp add: getStatus_def await_calls isDeployed_calls getPlan_calls split: outcome.splits)

lemma getStatus_outcome:
  "fst (getStatus c dir) =
     (case fst (isDeployed c dir) of
        Fulfilled d \<Rightarrow>
          if deployed d
          then map_outcome (\<lambda>p. \<lparr>isDeployedResult = d, planResult = Some p\<rparr>) (fst (getPlan c dir))
          else Fulfilled \<lparr>isDeployedResult = d, planResult = None\<rparr>
      | Rejected e \<Rightarrow> Rejected e | Pending \<Rightarrow> Pending | Exited n \<Rightarrow> Exited n)"
  by (simp add: getStatus_def await_outcome split: outcome.splits)

lemma plan_call_neq_state_call: "plan_call c dir \<noteq> state_call c dir"
  by (simp add: plan_call_def state_call_def tgPlanArgs_def)

lemma length_js_split: "length (js_split s) = Suc (count_list s (CHR 0x0A))"
  by (induction s) (auto split: list.splits)



subsection \<open>The edge arrays\<close>

text \<open>The arrays that \<^verbatim>\<open>map\<close> creates have pairwise different references, so the
  \<^verbatim>\<open>Set\<close> keeps every one of them.\<close>

lemma foldl_js_Set_add:
  "distinct (map fst (acc @ xs)) \<Longrightarrow> foldl js_Set_add acc xs = acc @ xs"
proof (induction xs arbitrary: acc)
  case Nil
  then show ?case by simp
next
  case (Cons x xs)
  from Cons.prems have "fst x \<notin> fst ` set acc" by auto
  then have "js_Set_add acc x = acc @ [x]" by (simp add: js_Set_add_def)
  moreover from Cons.prems have "distinct (map fst ((acc @ [x]) @ xs))" by simp
  ultimately show ?case using Cons.IH [of "acc @ [x]"] by simp
qed

lemma js_Set_new_arrays: "js_Set (enumerate n xs) = enumerate n xs"
  using foldl_js_Set_add [of "[]" "enumerate n xs"] by (simp add: js_Set_def)


lemma collect_relative_id:
  "collect (map (relative_id c) arr) = Inr v \<Longrightarrow>
     v = map (relative c (cwd c)) (mentioned (Edge_stmt arr))"
proof (induction arr arbitrary: v)
  case Nil
  then show ?case by simp
next
  case (Cons i arr)
  then show ?case
    by (cases i) (auto simp: relative_id_def split: sum.splits)
qed

lemma collect_edge_arrays:
  "collect (map (\<lambda>arr. collect (map (relative_id c) arr)) (map edge_list ss)) = Inr arrs \<Longrightarrow>
     list_all is_edge_stmt ss \<Longrightarrow>
     arrs = map (\<lambda>s. map (relative c (cwd c)) (mentioned s)) ss"
proof (induction ss arbitrary: arrs)
  case Nil
  then show ?case by simp
next
  case (Cons s ss)
  from Cons.prems(2) obtain arr where s: "s = Edge_stmt arr"
    by (cases s) auto
  from Cons.prems(1) obtain v vs where
    v: "collect (map (relative_id c) arr) = Inr v" and
    vs: "collect (map (\<lambda>arr. collect (map (relative_id c) arr)) (map edge_list ss)) = Inr vs" and
    arrs: "arrs = v # vs"
    by (auto simp: s split: sum.splits)
  from Cons.IH [OF vs] Cons.prems(2) have "vs = map (\<lambda>s. map (relative c (cwd c)) (mentioned s)) ss"
    by simp
  with collect_relative_id [OF v] arrs s show ?case by simp
qed

lemma onlyEdges_arrays:
  "onlyEdges c g = Inr edges \<Longrightarrow>
     map snd edges
       = map (\<lambda>s. map (relative c (cwd c)) (mentioned s)) (filter is_edge_stmt (children g))"
proof -
  assume a: "onlyEdges c g = Inr edges"
  then obtain arrs where
    arrs: "collect (map (\<lambda>arr. collect (map (relative_id c) arr))
             (map edge_list (filter is_edge_stmt (children g)))) = Inr arrs"
    and edges: "edges = js_Set (enumerate 0 arrs)"
    by (auto simp: onlyEdges_def split: sum.splits)
  have "list_all is_edge_stmt (filter is_edge_stmt (children g))"
    by (simp add: list_all_iff)
  from collect_edge_arrays [OF arrs this] edges show ?thesis
    by (simp add: js_Set_new_arrays)
qed

lemma onlyEdges_keeps_every_statement:
  "onlyEdges c g = Inr edges \<Longrightarrow> length edges = length (filter is_edge_stmt (children g))"
  using onlyEdges_arrays [of c g edges] by (metis length_map)

subsection \<open>Positions in a list\<close>

lemma index_of_append:
  "index_of x (as @ bs) = (if x \<in> set as then index_of x as else length as + index_of x bs)"
  by (induction as) auto

lemma index_of_less: "x \<in> set xs \<Longrightarrow> index_of x xs < length xs"
  by (induction xs) auto

lemma index_of_rev:
  "distinct xs \<Longrightarrow> x \<in> set xs \<Longrightarrow> index_of x (rev xs) + index_of x xs + 1 = length xs"
  by (induction xs) (auto simp: index_of_append)

subsection \<open>The modelled orderer\<close>

text \<open>The orderer lists every node of the edges once, puts the source of every edge
  before its target, and fails exactly with \<open>CyclicGraph\<close>; it fails on every edge
  list with a cycle.\<close>

lemma find_Some_holds: "find Q xs = Some v \<Longrightarrow> Q v \<and> v \<in> set xs"
  by (induction xs) (auto split: if_splits)

lemma kahn_Cons_Inr:
  "kahn P (r # rs) = Inr ordered \<Longrightarrow>
     \<exists>v ordered'. find (available P (r # rs)) (r # rs) = Some v
        \<and> kahn P (removeAll v (r # rs)) = Inr ordered' \<and> ordered = v # ordered'"
  by (auto simp del: removeAll.simps split: option.splits sum.splits)

lemma kahn_Cons_Inl:
  "kahn P (r # rs) = Inl e \<Longrightarrow>
     e = CyclicGraph
     \<or> (\<exists>v. find (available P (r # rs)) (r # rs) = Some v
           \<and> kahn P (removeAll v (r # rs)) = Inl e)"
  by (auto simp del: removeAll.simps split: option.splits sum.splits)

lemma kahn_error: "kahn P remaining = Inl e \<Longrightarrow> e = CyclicGraph"
proof (induction P remaining rule: kahn.induct)
  case (1 P)
  then show ?case by simp
next
  case (2 P r rs)
  from kahn_Cons_Inl [OF "2.prems"] "2.IH" show ?case by blast
qed

lemma kahn_set: "kahn P remaining = Inr ordered \<Longrightarrow> set ordered = set remaining"
proof (induction P remaining arbitrary: ordered rule: kahn.induct)
  case (1 P)
  then show ?case by simp
next
  case (2 P r rs)
  from kahn_Cons_Inr [OF "2.prems"] obtain v ordered' where
    f: "find (available P (r # rs)) (r # rs) = Some v" and
    k: "kahn P (removeAll v (r # rs)) = Inr ordered'" and
    o: "ordered = v # ordered'"
    by blast
  from "2.IH" [OF f k] have "set ordered' = set (r # rs) - {v}"
    by (simp del: removeAll.simps)
  moreover from find_Some_holds [OF f] have "v \<in> set (r # rs)" by simp
  ultimately show ?case using o by (auto simp del: kahn.simps)
qed

lemma kahn_distinct: "kahn P remaining = Inr ordered \<Longrightarrow> distinct ordered"
proof (induction P remaining arbitrary: ordered rule: kahn.induct)
  case (1 P)
  then show ?case by simp
next
  case (2 P r rs)
  from kahn_Cons_Inr [OF "2.prems"] obtain v ordered' where
    f: "find (available P (r # rs)) (r # rs) = Some v" and
    k: "kahn P (removeAll v (r # rs)) = Inr ordered'" and
    o: "ordered = v # ordered'"
    by blast
  from kahn_set [OF k] have "v \<notin> set ordered'" by (simp del: removeAll.simps)
  with "2.IH" [OF f k] o show ?case by (simp del: removeAll.simps)
qed

lemma kahn_respects_edges:
  "kahn P remaining = Inr ordered \<Longrightarrow> (a, b) \<in> set P \<Longrightarrow> a \<in> set remaining \<Longrightarrow>
     b \<in> set remaining \<Longrightarrow> index_of a ordered < index_of b ordered"
proof (induction P remaining arbitrary: ordered rule: kahn.induct)
  case (1 P)
  then show ?case by simp
next
  case (2 P r rs)
  from kahn_Cons_Inr [OF "2.prems"(1)] obtain v ordered' where
    f: "find (available P (r # rs)) (r # rs) = Some v" and
    k: "kahn P (removeAll v (r # rs)) = Inr ordered'" and
    o: "ordered = v # ordered'"
    by blast
  from find_Some_holds [OF f] have "available P (r # rs) v" by simp
  with "2.prems"(2,3) have bv: "b \<noteq> v"
    by (auto simp: available_def list_ex_iff)
  show ?case
  proof (cases "a = v")
    case True
    with bv o show ?thesis by simp
  next
    case False
    with bv "2.prems" have "a \<in> set (removeAll v (r # rs))" "b \<in> set (removeAll v (r # rs))"
      by (auto simp del: removeAll.simps)
    from "2.IH" [OF f k "2.prems"(2) this] False bv o show ?thesis
      by (simp del: removeAll.simps)
  qed
qed

lemma nodes_of_set: "set (nodes_of P) = fst ` set P \<union> snd ` set P"
  by (induction P) (auto simp: nodes_of_def)

lemma order_model_cases:
  "order_model E = Inl CyclicGraph \<or> (\<exists>ordered. order_model E = Inr ordered)"
  using kahn_error [of "edge_pairs E"] by (cases "order_model E") (auto simp: order_model_def)

lemma order_model_nodes:
  "order_model E = Inr ordered \<Longrightarrow>
     set ordered = set (nodes_of (edge_pairs E)) \<and> distinct ordered"
  using kahn_set [of "edge_pairs E"] kahn_distinct [of "edge_pairs E"]
  by (auto simp: order_model_def)

lemma order_model_edge:
  assumes "order_model E = Inr ordered" and "(a, b) \<in> set (edge_pairs E)"
  shows "index_of a ordered < index_of b ordered"
proof -
  from assms(2) have "a \<in> set (nodes_of (edge_pairs E))" "b \<in> set (nodes_of (edge_pairs E))"
    by (force simp: nodes_of_set)+
  then have "a \<in> set (rev (remdups (rev (nodes_of (edge_pairs E)))))"
    "b \<in> set (rev (remdups (rev (nodes_of (edge_pairs E)))))"
    by simp_all
  with assms show ?thesis
    unfolding order_model_def by (rule kahn_respects_edges)
qed

lemma order_model_respects_edges:
  assumes "order_model E = Inr ordered" and "(a, b) \<in> (set (edge_pairs E))\<^sup>+"
  shows "index_of a ordered < index_of b ordered"
  using assms(2)
proof (induction rule: trancl.induct)
  case (r_into_trancl a b)
  with assms(1) show ?case by (rule order_model_edge)
next
  case (trancl_into_trancl a b c)
  from order_model_edge [OF assms(1) trancl_into_trancl.hyps(2)] trancl_into_trancl.IH
  show ?case by (rule less_trans [rotated])
qed

lemma order_model_detects_cycles:
  "has_cycle (edge_pairs E) \<Longrightarrow> order_model E = Inl CyclicGraph"
proof -
  assume "has_cycle (edge_pairs E)"
  then obtain a where "(a, a) \<in> (set (edge_pairs E))\<^sup>+"
    by (auto simp: has_cycle_def list_ex_iff)
  then have "\<And>ordered. order_model E \<noteq> Inr ordered"
    using order_model_respects_edges [of E _ a a] by fastforce
  with order_model_cases [of E] show ?thesis by blast
qed

text \<open>It orders every edge list without a cycle.\<close>

lemma kahn_Cons_fails:
  "kahn P (r # rs) = Inl e \<Longrightarrow>
     find (available P (r # rs)) (r # rs) = None
     \<or> (\<exists>v. find (available P (r # rs)) (r # rs) = Some v
           \<and> kahn P (removeAll v (r # rs)) = Inl e)"
  by (auto simp del: removeAll.simps split: option.splits sum.splits)

lemma stuck_has_cycle:
  assumes "remaining \<noteq> []" and "find (available P remaining) remaining = None"
  shows "\<exists>x. (x, x) \<in> (set P)\<^sup>+"
proof (rule ccontr)
  assume no: "\<not> (\<exists>x. (x, x) \<in> (set P)\<^sup>+)"
  then have "acyclic (set P)" by (simp add: acyclic_def)
  then have "wf (set P)" by (simp add: finite_acyclic_wf)
  moreover from assms(1) obtain z where "z \<in> set remaining" by (cases remaining) auto
  ultimately obtain m where m: "m \<in> set remaining" "\<And>y. (y, m) \<in> set P \<Longrightarrow> y \<notin> set remaining"
    by (rule wfE_min) blast
  from assms(2) m(1) have "\<not> available P remaining m"
    by (auto simp: find_None_iff)
  then obtain a where "(a, m) \<in> set P" "a \<in> set remaining"
    by (auto simp: available_def list_ex_iff)
  with m(2) show False by blast
qed

lemma kahn_fails_on_cycle_only:
  "kahn P remaining = Inl e \<Longrightarrow> \<exists>x. (x, x) \<in> (set P)\<^sup>+"
proof (induction P remaining rule: kahn.induct)
  case (1 P)
  then show ?case by simp
next
  case (2 P r rs)
  from kahn_Cons_fails [OF "2.prems"] show ?case
  proof
    assume "find (available P (r # rs)) (r # rs) = None"
    then show ?thesis using stuck_has_cycle [of "r # rs" P] by simp
  next
    assume "\<exists>v. find (available P (r # rs)) (r # rs) = Some v
               \<and> kahn P (removeAll v (r # rs)) = Inl e"
    with "2.IH" show ?thesis by blast
  qed
qed

lemma order_model_orders_acyclic:
  assumes "\<not> has_cycle (edge_pairs E)"
  shows "\<exists>ordered. order_model E = Inr ordered"
proof (cases "order_model E")
  case (Inl e)
  then obtain x where x: "(x, x) \<in> (set (edge_pairs E))\<^sup>+"
    unfolding order_model_def by (blast dest: kahn_fails_on_cycle_only)
  then have "x \<in> Domain (set (edge_pairs E))"
    by (metis Domain.DomainI trancl_domain)
  then have "x \<in> set (nodes_of (edge_pairs E))"
    by (force simp: nodes_of_set)
  with x assms show ?thesis by (auto simp: has_cycle_def list_ex_iff)
next
  case (Inr ordered)
  then show ?thesis by blast
qed

subsection \<open>getDependencyTree, step by step\<close>

lemma try_block_outcome:
  "fst (try_block c) =
     (case fst (execProcess c (terragrunt c)
                  [''graph-dependencies'', ''--terragrunt-ignore-external-dependencies'']
                  (cwd c) True) of
        Fulfilled result \<Rightarrow>
          (case dotparser c (stdout result) of
             Inl e \<Rightarrow> Rejected (Thrown_error e)
           | Inr parsedGraph \<Rightarrow>
              (case ordered_dependencies c parsedGraph of
                 Inl e \<Rightarrow> Rejected e
               | Inr returnVal \<Rightarrow> Fulfilled returnVal))
      | Rejected e \<Rightarrow> Rejected e
      | Pending \<Rightarrow> Pending
      | Exited n \<Rightarrow> Exited n)"
  by (simp add: try_block_def await_outcome split: outcome.splits)

lemma try_block_calls: "snd (try_block c) = [graph_call c]"
  by (simp add: try_block_def await_calls execProcess_def graph_call_def split: outcome.splits)

lemma getDependencyTree_outcome:
  "fst (getDependencyTree c) =
     (case fst (try_block c) of Rejected e \<Rightarrow> catch_block e | out \<Rightarrow> out)"
  by (cases "try_block c"; cases "fst (try_block c)") (auto simp: getDependencyTree_def)

lemma getDependencyTree_calls: "snd (getDependencyTree c) = [graph_call c]"
  using try_block_calls [of c]
  by (cases "try_block c"; cases "fst (try_block c)") (auto simp: getDependencyTree_def)

lemma catch_block_not_Fulfilled: "catch_block e \<noteq> Fulfilled v"
  by (simp add: catch_block_def split: thrown.splits)

lemma getDependencyTree_Fulfilled:
  assumes "fst (getDependencyTree c) = Fulfilled tree"
  shows "\<exists>result parsedGraph.
           fst (execProcess c (terragrunt c)
                  [''graph-dependencies'', ''--terragrunt-ignore-external-dependencies'']
                  (cwd c) True) = Fulfilled result
         \<and> dotparser c (stdout result) = Inr parsedGraph
         \<and> ordered_dependencies c parsedGraph = Inr tree"
proof -
  from assms have "fst (try_block c) = Fulfilled tree"
    by (auto simp: getDependencyTree_outcome catch_block_not_Fulfilled split: outcome.splits)
  then show ?thesis
    by (auto simp: try_block_outcome split: outcome.splits sum.splits)
qed

lemma ordered_dependencies_Inr:
  assumes "ordered_dependencies c parsedGraph = Inr tree"
  shows "\<exists>g gs edges.
           parsedGraph = g # gs \<and> onlyEdges c g = Inr edges
         \<and> toposort c (map snd edges) = Inr (destroyOrder tree)
         \<and> deployOrder tree = rev (destroyOrder tree)
         \<and> noDeps tree =
             filter (\<lambda>obj. obj \<notin> set (destroyOrder tree))
               (map (\<lambda>obj. relative c (cwd c) (node_id obj)) (filter is_node_stmt (children g)))"
  using assms
  by (auto simp: ordered_dependencies_def Let_def split: list.splits sum.splits)





text \<open>With the modelled orderer the call returns for every graph without a cycle.\<close>

lemma acyclic_graph_is_ordered:
  assumes "fst (execProcess c (terragrunt c)
               [''graph-dependencies'', ''--terragrunt-ignore-external-dependencies'']
               (cwd c) True) = Fulfilled result"
    and "dotparser c (stdout result) = Inr (g # gs)"
    and "onlyEdges c g = Inr edges"
    and "\<not> has_cycle (edge_pairs (map snd edges))"
    and "toposort c (map snd edges) = order_model (map snd edges)"
  shows "\<exists>tree. fst (getDependencyTree c) = Fulfilled tree"
proof -
  from order_model_orders_acyclic [OF assms(4)] assms(5) obtain ordered where
    "toposort c (map snd edges) = Inr ordered" by auto
  with assms(3) have "\<exists>tree. ordered_dependencies c (g # gs) = Inr tree"
    by (simp add: ordered_dependencies_def Let_def)
  with assms(1,2) have "\<exists>tree. fst (try_block c) = Fulfilled tree"
    by (auto simp: try_block_outcome)
  then show ?thesis
    by (auto simp: getDependencyTree_outcome)
qed

subsection \<open>The returned orders\<close>

text \<open>C1. The orders that \<^verbatim>\<open>getDependencyTree\<close> returns mirror each other:
  \<open>deployOrder\<close> is the reverse of \<open>destroyOrder\<close>, so the stack at position \<open>i\<close> of one is
  at position \<open>N - 1 - i\<close> of the other, \<open>N\<close> being their common length. When no stack is
  listed twice, which holds for the modelled orderer, the position of every stack \<open>S\<close> of
  the orders satisfies \<open>index_of S deployOrder = N - 1 - index_of S destroyOrder\<close>.\<close>

theorem deployOrder_reverses_destroyOrder:
  assumes "fst (getDependencyTree c) = Fulfilled tree"
  shows "deployOrder tree = rev (destroyOrder tree)
       \<and> length (deployOrder tree) = length (destroyOrder tree)
       \<and> (\<forall>i < length (destroyOrder tree).
            deployOrder tree ! i = destroyOrder tree ! (length (destroyOrder tree) - 1 - i))
       \<and> (distinct (destroyOrder tree) \<or> toposort c = order_model \<longrightarrow>
            (\<forall>S \<in> set (destroyOrder tree).
               int (index_of S (deployOrder tree))
                 = int (length (destroyOrder tree)) - 1 - int (index_of S (destroyOrder tree))))"
proof -
  from getDependencyTree_Fulfilled [OF assms] obtain parsedGraph where
    "ordered_dependencies c parsedGraph = Inr tree" by blast
  from ordered_dependencies_Inr [OF this] obtain edges :: "string list obj list" where
    t: "toposort c (map snd edges) = Inr (destroyOrder tree)" and
    r: "deployOrder tree = rev (destroyOrder tree)"
    by blast
  have m: "\<forall>i < length (destroyOrder tree).
            deployOrder tree ! i = destroyOrder tree ! (length (destroyOrder tree) - 1 - i)"
    by (simp add: r rev_nth)
  have "\<forall>S \<in> set (destroyOrder tree).
               int (index_of S (deployOrder tree))
                 = int (length (destroyOrder tree)) - 1 - int (index_of S (destroyOrder tree))"
    if "distinct (destroyOrder tree) \<or> toposort c = order_model"
  proof
    fix S assume S: "S \<in> set (destroyOrder tree)"
    from that t have "distinct (destroyOrder tree)"
      using order_model_nodes [of "map snd edges" "destroyOrder tree"] by auto
    from index_of_rev [OF this S] show "int (index_of S (deployOrder tree))
                 = int (length (destroyOrder tree)) - 1 - int (index_of S (destroyOrder tree))"
      by (simp add: r)
  qed
  with r m show ?thesis by simp
qed

theorem deployOrder_reverses_destroyOrder_witness:
  "fst (getDependencyTree (demo ''/infra''))
     = Fulfilled \<lparr>destroyOrder = [''b'', ''a''], deployOrder = [''a'', ''b''], noDeps = [''c'']\<rparr>
   \<and> deployOrder \<lparr>destroyOrder = [''b'', ''a''], deployOrder = [''a'', ''b''], noDeps = [''c'']\<rparr>
     = rev [''b'', ''a'']
   \<and> distinct [''b'', ''a'']
   \<and> int (index_of ''b'' [''a'', ''b'']) = int (length [''b'', ''a'']) - 1 - int (index_of ''b'' [''b'', ''a''])
   \<and> int (index_of ''a'' [''a'', ''b'']) = int (length [''b'', ''a'']) - 1 - int (index_of ''a'' [''b'', ''a''])"
proof -
  have h: "fst (getDependencyTree (demo ''/infra''))
     = Fulfilled \<lparr>destroyOrder = [''b'', ''a''], deployOrder = [''a'', ''b''], noDeps = [''c'']\<rparr>"
    by code_simp
  from deployOrder_reverses_destroyOrder [OF h] h show ?thesis by simp
qed







subsection \<open>The plan probe\<close>

text \<open>C4. \<^verbatim>\<open>getPlan\<close> returns what the exit code of the plan's child process decides:
  exit code 0 gives \<^verbatim>\<open>{hasChanges: false, success: true}\<close>, exit code 2 gives
  \<^verbatim>\<open>{hasChanges: true, success: true}\<close>, and every other exit code gives
  \<^verbatim>\<open>{hasChanges: false, success: false}\<close>.\<close>
theorem getPlan_exit_code:
  "fst (getPlan c dir) =
     map_outcome plan_of (fst (execProcess c (terragrunt c) (tgPlanArgs c) dir False))
   \<and> (exitCode result = 0 \<longrightarrow>
        plan_of result = \<lparr>hasChanges = False, success = True\<rparr>)
   \<and> (exitCode result = 2 \<longrightarrow>
        plan_of result = \<lparr>hasChanges = True, success = True\<rparr>)
   \<and> (exitCode result \<noteq> 0 \<and> exitCode result \<noteq> 2 \<longrightarrow>
        plan_of result = \<lparr>hasChanges = False, success = False\<rparr>)"
  by (simp add: getPlan_outcome plan_of_def)

theorem getPlan_exit_code_witness:
  "exitCode \<lparr>stdout = [], stderr = [], exitCode = 0, err = None\<rparr> = 0
   \<and> plan_of \<lparr>stdout = [], stderr = [], exitCode = 0, err = None\<rparr>
       = \<lparr>hasChanges = False, success = True\<rparr>
   \<and> exitCode \<lparr>stdout = [], stderr = [], exitCode = 2, err = None\<rparr> = 2
   \<and> plan_of \<lparr>stdout = [], stderr = [], exitCode = 2, err = None\<rparr>
       = \<lparr>hasChanges = True, success = True\<rparr>
   \<and> exitCode \<lparr>stdout = [], stderr = [], exitCode = 1, err = None\<rparr> \<noteq> 0
   \<and> exitCode \<lparr>stdout = [], stderr = [], exitCode = 1, err = None\<rparr> \<noteq> 2
   \<and> plan_of \<lparr>stdout = [], stderr = [], exitCode = 1, err = None\<rparr>
       = \<lparr>hasChanges = False, success = False\<rparr>
   \<and> fst (getPlan (demo ''/infra'') ''/infra/a'')
       = Fulfilled \<lparr>hasChanges = True, success = True\<rparr>"
proof -
  have run: "fst (execProcess (demo ''/infra'') (terragrunt (demo ''/infra''))
                    (tgPlanArgs (demo ''/infra'')) ''/infra/a'' False)
             = Fulfilled \<lparr>stdout = ''Plan: 1 to add'', stderr = [], exitCode = 2, err = None\<rparr>"
    by (simp add: execProcess_def demo_def demo_spawn_def tgPlanArgs_def)
  show ?thesis
    using getPlan_exit_code [of "demo ''/infra''" "''/infra/a''"
            "\<lparr>stdout = [], stderr = [], exitCode = 0, err = None\<rparr>"]
          getPlan_exit_code [of "demo ''/infra''" "''/infra/a''"
            "\<lparr>stdout = [], stderr = [], exitCode = 2, err = None\<rparr>"]
          getPlan_exit_code [of "demo ''/infra''" "''/infra/a''"
            "\<lparr>stdout = [], stderr = [], exitCode = 1, err = None\<rparr>"]
          getPlan_exit_code [of "demo ''/infra''" "''/infra/a''"
            "\<lparr>stdout = ''Plan: 1 to add'', stderr = [], exitCode = 2, err = None\<rparr>"]
    by (simp add: run)
qed

subsection \<open>The deployment probe\<close>

text \<open>C5. When \<^verbatim>\<open>terragrunt state list\<close> exits with code 0, its stderr contains none of
  the five known patterns and its stdout is at most one line, \<^verbatim>\<open>isDeployed\<close> reports
  \<open>deployed = False\<close>, \<open>success = True\<close> and the empty-state reason; with more than one
  line it reports \<open>deployed = True\<close>. By \<open>length_js_split\<close> the number of lines is one
  more than the number of line feeds.\<close>
theorem isDeployed_empty_state:
  assumes "fst (execProcess c (terragrunt c) [''state'', ''list''] dir False) = Fulfilled result"
    and "exitCode result = 0"
    and "\<not> js_includes (stderr result) ''No state file was found!''"
    and "\<not> js_includes (stderr result) ''but detected no outputs''"
    and "\<not> js_includes (stderr result) ''Error finding AWS credentials''"
    and "\<not> js_includes (stderr result) ''Initialization required''"
    and "\<not> js_includes (stderr result) ''Could not load plugin''"
  shows "(length (js_split (stdout result)) \<le> 1 \<longrightarrow>
            fst (isDeployed c dir)
              = Fulfilled \<lparr>deployed = False, success = True, failReason = Some empty_state\<rparr>)
       \<and> (length (js_split (stdout result)) > 1 \<longrightarrow>
            fst (isDeployed c dir)
              = Fulfilled \<lparr>deployed = True, success = True, failReason = None\<rparr>)"
  using assms by (simp add: isDeployed_outcome classify_def)

theorem isDeployed_empty_state_witness:
  "fst (execProcess (demo ''/infra'') (terragrunt (demo ''/infra'')) [''state'', ''list'']
          ''/infra/empty'' False)
     = Fulfilled \<lparr>stdout = ''  '', stderr = [], exitCode = 0, err = None\<rparr>
   \<and> length (js_split ''  '') \<le> 1
   \<and> fst (isDeployed (demo ''/infra'') ''/infra/empty'')
     = Fulfilled \<lparr>deployed = False, success = True, failReason = Some empty_state\<rparr>
   \<and> fst (execProcess (demo ''/infra'') (terragrunt (demo ''/infra'')) [''state'', ''list'']
          ''/infra/a'' False)
     = Fulfilled \<lparr>stdout = ''aws_s3_bucket.logs'' @ [CHR 0x0A], stderr = [], exitCode = 0,
                  err = None\<rparr>
   \<and> length (js_split (''aws_s3_bucket.logs'' @ [CHR 0x0A])) > 1
   \<and> fst (isDeployed (demo ''/infra'') ''/infra/a'')
     = Fulfilled \<lparr>deployed = True, success = True, failReason = None\<rparr>"
proof -
  have e: "fst (execProcess (demo ''/infra'') (terragrunt (demo ''/infra'')) [''state'', ''list'']
                  ''/infra/empty'' False)
           = Fulfilled \<lparr>stdout = ''  '', stderr = [], exitCode = 0, err = None\<rparr>"
    by (simp add: execProcess_def demo_def demo_spawn_def)
  have a: "fst (execProcess (demo ''/infra'') (terragrunt (demo ''/infra'')) [''state'', ''list'']
                  ''/infra/a'' False)
           = Fulfilled \<lparr>stdout = ''aws_s3_bucket.logs'' @ [CHR 0x0A], stderr = [], exitCode = 0,
                        err = None\<rparr>"
    by (simp add: execProcess_def demo_def demo_spawn_def)
  show ?thesis
    using isDeployed_empty_state [OF e] isDeployed_empty_state [OF a] e a
    by simp
qed

text \<open>C6. \<^verbatim>\<open>getStatus\<close> starts the plan probe exactly when the deployment probe has
  returned \<open>deployed = True\<close>, and then after the state listing; the status has a plan
  result exactly when it is deployed. When the stderr of the state listing contains
  \<^verbatim>\<open>No state file was found!\<close>, \<^verbatim>\<open>isDeployed\<close> reports \<open>deployed = False\<close> with the reason
  \<^verbatim>\<open>No state file found.\<close> and the plan probe is not started.\<close>
theorem plan_probe_only_after_deployed:
  "(plan_call c dir \<in> set (snd (getStatus c dir))
      \<longleftrightarrow> (\<exists>d. fst (isDeployed c dir) = Fulfilled d \<and> deployed d))
   \<and> (snd (getStatus c dir) = [state_call c dir]
        \<or> snd (getStatus c dir) = [state_call c dir, plan_call c dir])
   \<and> (fst (getStatus c dir) = Fulfilled s \<longrightarrow>
        (planResult s \<noteq> None \<longleftrightarrow> deployed (isDeployedResult s)))
   \<and> (fst (execProcess c (terragrunt c) [''state'', ''list''] dir False) = Fulfilled result
        \<and> js_includes (stderr result) ''No state file was found!''
      \<longrightarrow> fst (isDeployed c dir)
            = Fulfilled \<lparr>deployed = False, success = False, failReason = Some no_state_file\<rparr>
          \<and> plan_call c dir \<notin> set (snd (getStatus c dir)))"
proof -
  have 1: "plan_call c dir \<in> set (snd (getStatus c dir))
      \<longleftrightarrow> (\<exists>d. fst (isDeployed c dir) = Fulfilled d \<and> deployed d)"
    using plan_call_neq_state_call [of c dir]
    by (cases "fst (isDeployed c dir)") (auto simp: getStatus_calls)
  have 2: "snd (getStatus c dir) = [state_call c dir]
        \<or> snd (getStatus c dir) = [state_call c dir, plan_call c dir]"
    by (simp add: getStatus_calls split: outcome.splits)
  have 3: "fst (getStatus c dir) = Fulfilled s \<longrightarrow>
        (planResult s \<noteq> None \<longleftrightarrow> deployed (isDeployedResult s))"
    by (cases "fst (isDeployed c dir)"; cases "fst (getPlan c dir)")
       (auto simp: getStatus_outcome split: if_splits)
  have 4: "fst (execProcess c (terragrunt c) [''state'', ''list''] dir False) = Fulfilled result
        \<and> js_includes (stderr result) ''No state file was found!''
      \<longrightarrow> fst (isDeployed c dir)
            = Fulfilled \<lparr>deployed = False, success = False, failReason = Some no_state_file\<rparr>
          \<and> plan_call c dir \<notin> set (snd (getStatus c dir))"
    using plan_call_neq_state_call [of c dir]
    by (auto simp: getStatus_calls isDeployed_outcome classify_def)
  from 1 2 3 4 show ?thesis by blast
qed

theorem plan_probe_only_after_deployed_witness:
  "fst (execProcess (demo ''/infra'') (terragrunt (demo ''/infra'')) [''state'', ''list'']
          ''/infra/b'' False)
     = Fulfilled \<lparr>stdout = [], stderr = ''No state file was found!'', exitCode = 1, err = None\<rparr>
   \<and> js_includes ''No state file was found!'' ''No state file was found!''
   \<and> fst (isDeployed (demo ''/infra'') ''/infra/b'')
       = Fulfilled \<lparr>deployed = False, success = False, failReason = Some no_state_file\<rparr>
   \<and> plan_call (demo ''/infra'') ''/infra/b'' \<notin> set (snd (getStatus (demo ''/infra'') ''/infra/b''))
   \<and> fst (getStatus (demo ''/infra'') ''/infra/b'')
       = Fulfilled \<lparr>isDeployedResult =
            \<lparr>deployed = False, success = False, failReason = Some no_state_file\<rparr>,
            planResult = None\<rparr>"
proof -
  have b: "fst (execProcess (demo ''/infra'') (terragrunt (demo ''/infra'')) [''state'', ''list'']
                  ''/infra/b'' False)
           = Fulfilled \<lparr>stdout = [], stderr = ''No state file was found!'', exitCode = 1,
                        err = None\<rparr>"
    by (simp add: execProcess_def demo_def demo_spawn_def)
  have i: "js_includes ''No state file was found!'' ''No state file was found!''"
    by simp
  have s: "fst (getStatus (demo ''/infra'') ''/infra/b'')
       = Fulfilled \<lparr>isDeployedResult =
            \<lparr>deployed = False, success = False, failReason = Some no_state_file\<rparr>,
            planResult = None\<rparr>"
    by (simp add: getStatus_outcome isDeployed_outcome b classify_def)
  show ?thesis
    using plan_probe_only_after_deployed [of "demo ''/infra''" "''/infra/b''" _
            "\<lparr>stdout = [], stderr = ''No state file was found!'', exitCode = 1, err = None\<rparr>"]
          b i s
    by simp
qed

text \<open>C10. The record that \<^verbatim>\<open>isDeployed\<close> returns is the classification of the result
  of the state listing, and every classification is of one of two kinds: deployed,
  successful and without a reason, or not deployed with a reason that is not the empty
  string.\<close>
theorem isDeployed_result_cases:
  "fst (isDeployed c dir) =
     map_outcome (classify c) (fst (execProcess c (terragrunt c) [''state'', ''list''] dir False))
   \<and> ((deployed (classify c result) \<and> deployment_status.success (classify c result)
        \<and> failReason (classify c result) = None)
      \<or> (\<not> deployed (classify c result)
        \<and> (\<exists>r. failReason (classify c result) = Some r \<and> r \<noteq> [])))"
  by (simp add: isDeployed_outcome classify_def Let_def no_state_file_def parent_not_deployed_def
      no_credentials_def init_required_def unknown_reason_def empty_state_def)

theorem isDeployed_result_cases_witness:
  "deployed (classify (demo ''/infra'')
      \<lparr>stdout = ''aws_s3_bucket.logs'' @ [CHR 0x0A], stderr = [], exitCode = 0, err = None\<rparr>)
   \<and> failReason (classify (demo ''/infra'')
      \<lparr>stdout = ''aws_s3_bucket.logs'' @ [CHR 0x0A], stderr = [], exitCode = 0, err = None\<rparr>)
     = None
   \<and> \<not> deployed (classify (demo ''/infra'')
      \<lparr>stdout = [], stderr = [], exitCode = - 2, err = Some ENOENT\<rparr>)
   \<and> failReason (classify (demo ''/infra'')
      \<lparr>stdout = [], stderr = [], exitCode = - 2, err = Some ENOENT\<rparr>)
     = Some unknown_reason"
  using isDeployed_result_cases [of "demo ''/infra''" "''/infra/a''"
          "\<lparr>stdout = ''aws_s3_bucket.logs'' @ [CHR 0x0A], stderr = [], exitCode = 0,
            err = None\<rparr>"]
        isDeployed_result_cases [of "demo ''/infra''" "''/infra/c''"
          "\<lparr>stdout = [], stderr = [], exitCode = - 2, err = Some ENOENT\<rparr>"]
  by (simp add: classify_def)

subsection \<open>A cyclic graph\<close>

text \<open>C2. When the edges read from the graph contain a cycle and the orderer is the
  modelled one on these edges, the ordering step fails with \<open>CyclicGraph\<close>. The error
  reaches the \<^verbatim>\<open>catch\<close> block of \<^verbatim>\<open>getDependencyTree\<close>, which throws in turn, so the call
  is rejected: no \<open>OrderedDependencies\<close> value is returned, and \<^verbatim>\<open>go\<close> ends rejected
  after the one child process of the graph, without probing any stack.\<close>

theorem cyclic_graph_is_fatal:
  assumes "fst (execProcess c (terragrunt c)
               [''graph-dependencies'', ''--terragrunt-ignore-external-dependencies'']
               (cwd c) True) = Fulfilled result"
    and "dotparser c (stdout result) = Inr (g # gs)"
    and "onlyEdges c g = Inr edges"
    and "has_cycle (edge_pairs (map snd edges))"
    and "toposort c (map snd edges) = order_model (map snd edges)"
  shows "toposort c (map snd edges) = Inl CyclicGraph
       \<and> getDependencyTree c
           = (Rejected (Thrown_error
                (TypeError ''Cannot read properties of undefined (reading includes)'')),
              [graph_call c])
       \<and> go c
           = (Rejected (Thrown_error
                (TypeError ''Cannot read properties of undefined (reading includes)'')),
              [graph_call c])"
proof -
  from assms(4,5) have t: "toposort c (map snd edges) = Inl CyclicGraph"
    by (simp add: order_model_detects_cycles)
  with assms(3) have "ordered_dependencies c (g # gs) = Inl (Thrown_error CyclicGraph)"
    by (simp add: ordered_dependencies_def)
  with assms(1,2) have "fst (try_block c) = Rejected (Thrown_error CyclicGraph)"
    by (simp add: try_block_outcome)
  then have "fst (getDependencyTree c)
           = Rejected (Thrown_error
                (TypeError ''Cannot read properties of undefined (reading includes)''))"
    by (simp add: getDependencyTree_outcome catch_block_def CyclicGraph_def)
  then have d: "getDependencyTree c
           = (Rejected (Thrown_error
                (TypeError ''Cannot read properties of undefined (reading includes)'')),
              [graph_call c])"
    using getDependencyTree_calls [of c] by (cases "getDependencyTree c") simp
  then have "go c
           = (Rejected (Thrown_error
                (TypeError ''Cannot read properties of undefined (reading includes)'')),
              [graph_call c])"
    by (simp add: go_def await_def)
  with t d show ?thesis by simp
qed

theorem cyclic_graph_is_fatal_witness:
  "fst (execProcess (demo ''/cyclic'') (terragrunt (demo ''/cyclic''))
               [''graph-dependencies'', ''--terragrunt-ignore-external-dependencies'']
               (cwd (demo ''/cyclic'')) True)
     = Fulfilled \<lparr>stdout = cyclic_text, stderr = [], exitCode = 0, err = None\<rparr>
   \<and> dotparser (demo ''/cyclic'') cyclic_text = Inr [cyclic_graph]
   \<and> onlyEdges (demo ''/cyclic'') cyclic_graph = Inr [(0, [''a'', ''b'']), (1, [''b'', ''a''])]
   \<and> has_cycle (edge_pairs [[''a'', ''b''], [''b'', ''a'']])
   \<and> toposort (demo ''/cyclic'') [[''a'', ''b''], [''b'', ''a'']] = Inl CyclicGraph
   \<and> go (demo ''/cyclic'')
       = (Rejected (Thrown_error
            (TypeError ''Cannot read properties of undefined (reading includes)'')),
          [graph_call (demo ''/cyclic'')])"
proof -
  have r: "fst (execProcess (demo ''/cyclic'') (terragrunt (demo ''/cyclic''))
               [''graph-dependencies'', ''--terragrunt-ignore-external-dependencies'']
               (cwd (demo ''/cyclic'')) True)
           = Fulfilled \<lparr>stdout = cyclic_text, stderr = [], exitCode = 0, err = None\<rparr>"
    by (simp add: execProcess_def demo_def demo_spawn_def)
  have p: "dotparser (demo ''/cyclic'') cyclic_text = Inr [cyclic_graph]"
    by (simp add: demo_def demo_dotparser_def cyclic_text_def acyclic_text_def quoted_def)
  then have p': "dotparser (demo ''/cyclic'')
             (stdout \<lparr>stdout = cyclic_text, stderr = [], exitCode = 0, err = None\<rparr>)
           = Inr (cyclic_graph # [])"
    by simp
  have e: "onlyEdges (demo ''/cyclic'') cyclic_graph
             = Inr [(0, [''a'', ''b'']), (1, [''b'', ''a''])]"
    by code_simp
  have "(''a'', ''a'') \<in> (set [(''a'', ''b''), (''b'', ''a'')])\<^sup>+"
    by (rule trancl_into_trancl [of _ "''b''"]) auto
  then have h: "has_cycle (edge_pairs (map snd [(0::nat, [''a'', ''b'']), (1, [''b'', ''a''])]))"
    by (simp add: has_cycle_def edge_pairs_def nodes_of_def)
  have t: "toposort (demo ''/cyclic'') (map snd [(0::nat, [''a'', ''b'']), (1, [''b'', ''a''])])
           = order_model (map snd [(0::nat, [''a'', ''b'']), (1, [''b'', ''a''])])"
    by (simp add: demo_def)
  from cyclic_graph_is_fatal [OF r p' e h t] r p e h show ?thesis by simp
qed

subsection \<open>Repeated edge statements\<close>

text \<open>C7. The edge arrays of a graph in which the edge from \<open>a\<close> to \<open>b\<close> is written
  twice: the \<^verbatim>\<open>Set\<close> holds two arrays with equal contents, and \<^verbatim>\<open>onlyEdges\<close> has two
  equal edges.
  By \<open>onlyEdges_keeps_every_statement\<close> the same holds for every graph: there are as many
  stored edges as edge statements.\<close>

theorem onlyEdges_keeps_duplicates:
  "dotparser (demo ''/dup'') duplicate_text = Inr [duplicate_graph]
   \<and> onlyEdges (demo ''/dup'') duplicate_graph = Inr [(0, [''a'', ''b'']), (1, [''a'', ''b''])]
   \<and> \<not> distinct (map snd [(0::nat, [''a'', ''b'']), (1, [''a'', ''b''])])
   \<and> length [(0::nat, [''a'', ''b'']), (1, [''a'', ''b''])]
     = length (filter is_edge_stmt (children duplicate_graph))"
proof -
  have "dotparser (demo ''/dup'') duplicate_text = Inr [duplicate_graph]"
    by (simp add: demo_def demo_dotparser_def duplicate_text_def cyclic_text_def
        acyclic_text_def quoted_def)
  moreover have "onlyEdges (demo ''/dup'') duplicate_graph
                   = Inr [(0, [''a'', ''b'']), (1, [''a'', ''b''])]"
    by code_simp
  ultimately show ?thesis by (simp add: duplicate_graph_def)
qed

subsection \<open>A child process that cannot be launched\<close>

lemma normal_termination_outcome:
  "normal_termination es \<Longrightarrow>
     (\<exists>r. listeners es ret None rej = Fulfilled r \<and> err r = None
           \<and> 0 \<le> exitCode r \<and> exitCode r \<le> 255)
     \<or> (\<exists>r. listeners es ret None rej = Rejected (Thrown_result r)
           \<and> 0 \<le> exitCode r \<and> exitCode r \<le> 255)"
  by (induction es ret "None :: js_error option" rej rule: listeners.induct)
     (auto simp: Let_def split: option.splits)

lemma failed_launch_outcome:
  "listeners (failed_launch e errno) ret error rej =
     (if errno \<noteq> 0 \<and> rej then Rejected (Thrown_result (ret\<lparr>exitCode := errno\<rparr>))
      else Fulfilled (ret\<lparr>exitCode := errno, err := Some e\<rparr>))"
  by (simp add: failed_launch_def)

text \<open>C8. A child process that cannot be launched makes \<^verbatim>\<open>spawn\<close> throw, or emits
  \<^verbatim>\<open>'error'\<close> and then \<^verbatim>\<open>'close'\<close> with a negative error number. In both cases
  \<^verbatim>\<open>execProcess\<close> settles, and with an outcome that no normal termination has, whatever
  \<^verbatim>\<open>rejectIfExitNonzero\<close> is on either side: a result it resolves with carries the launch
  error in \<^verbatim>\<open>err\<close>, and the exit code it reports, resolving or rejecting, is the negative
  error number, so neither 255 nor 0.\<close>

theorem launch_failure_is_distinct:
  assumes "spawn c file args dir = Inl e
           \<or> (spawn c file args dir = Inr (failed_launch e errno) \<and> errno < 0)"
    and "spawn c' file' args' dir' = Inr es"
    and "normal_termination es"
  shows "fst (execProcess c file args dir rej) \<noteq> fst (execProcess c' file' args' dir' rej')
       \<and> fst (execProcess c file args dir rej) \<noteq> Pending
       \<and> (\<forall>r. fst (execProcess c file args dir rej) = Fulfilled r \<longrightarrow>
            err r = Some e \<and> exitCode r \<noteq> 0 \<and> exitCode r \<noteq> 255)
       \<and> (\<forall>r. fst (execProcess c file args dir rej) = Rejected (Thrown_result r) \<longrightarrow>
            exitCode r < 0 \<and> exitCode r \<noteq> 255)"
proof -
  let ?ret = "\<lparr>stdout = [], stderr = [], exitCode = 255, err = None\<rparr>"
  from assms(2) have n: "fst (execProcess c' file' args' dir' rej') = listeners es ?ret None rej'"
    by (simp add: execProcess_def)
  from assms(1) show ?thesis
  proof
    assume "spawn c file args dir = Inl e"
    then have "fst (execProcess c file args dir rej) = Rejected (Thrown_error e)"
      by (simp add: execProcess_def)
    with n normal_termination_outcome [OF assms(3), of ?ret rej'] show ?thesis
      by auto
  next
    assume a: "spawn c file args dir = Inr (failed_launch e errno) \<and> errno < 0"
    then have "fst (execProcess c file args dir rej) =
                 (if rej then Rejected (Thrown_result (?ret\<lparr>exitCode := errno\<rparr>))
                  else Fulfilled (?ret\<lparr>exitCode := errno, err := Some e\<rparr>))"
      by (simp add: execProcess_def failed_launch_outcome)
    with a n normal_termination_outcome [OF assms(3), of ?ret rej'] show ?thesis
      by (cases rej) auto
  qed
qed

theorem launch_failure_is_distinct_witness:
  "spawn (demo ''/missing'') ''terragrunt''
     [''graph-dependencies'', ''--terragrunt-ignore-external-dependencies''] ''/missing''
     = Inr (failed_launch ENOENT (- 2))
   \<and> (- 2 :: int) < 0
   \<and> spawn (demo ''/infra'') ''terragrunt'' [''state'', ''list''] ''/infra/b''
     = Inr [Stderr_data ''No state file was found!'', Close (Some 1)]
   \<and> normal_termination [Stderr_data ''No state file was found!'', Close (Some 1)]
   \<and> fst (execProcess (demo ''/missing'') ''terragrunt''
          [''graph-dependencies'', ''--terragrunt-ignore-external-dependencies''] ''/missing'' True)
     = Rejected (Thrown_result \<lparr>stdout = [], stderr = [], exitCode = - 2, err = None\<rparr>)
   \<and> fst (execProcess (demo ''/missing'') ''terragrunt''
          [''graph-dependencies'', ''--terragrunt-ignore-external-dependencies''] ''/missing'' True)
     \<noteq> fst (execProcess (demo ''/infra'') ''terragrunt'' [''state'', ''list''] ''/infra/b'' True)
   \<and> fst (execProcess (demo ''/infra'') ''terragrunt'' [''state'', ''list''] ''/infra/c'' False)
     = Fulfilled \<lparr>stdout = [], stderr = [], exitCode = - 2, err = Some ENOENT\<rparr>
   \<and> spawn (demo ''/notdir'') ''terragrunt'' [''state'', ''list''] ''/notdir/c'' = Inl ENOTDIR
   \<and> fst (execProcess (demo ''/notdir'') ''terragrunt'' [''state'', ''list''] ''/notdir/c'' False)
     = Rejected (Thrown_error ENOTDIR)
   \<and> fst (execProcess (demo ''/notdir'') ''terragrunt'' [''state'', ''list''] ''/notdir/c'' False)
     \<noteq> fst (execProcess (demo ''/infra'') ''terragrunt'' [''state'', ''list''] ''/infra/b'' False)"
proof -
  have m: "spawn (demo ''/missing'') ''terragrunt''
     [''graph-dependencies'', ''--terragrunt-ignore-external-dependencies''] ''/missing''
     = Inr (failed_launch ENOENT (- 2))"
    by (simp add: demo_def demo_spawn_def launch_failure_def)
  have b: "spawn (demo ''/infra'') ''terragrunt'' [''state'', ''list''] ''/infra/b''
     = Inr [Stderr_data ''No state file was found!'', Close (Some 1)]"
    by (simp add: demo_def demo_spawn_def)
  have t: "normal_termination [Stderr_data ''No state file was found!'', Close (Some 1)]"
    by simp
  have d: "spawn (demo ''/notdir'') ''terragrunt'' [''state'', ''list''] ''/notdir/c'' = Inl ENOTDIR"
    by (simp add: demo_def demo_spawn_def)
  have 1: "fst (execProcess (demo ''/missing'') ''terragrunt''
          [''graph-dependencies'', ''--terragrunt-ignore-external-dependencies''] ''/missing'' True)
     = Rejected (Thrown_result \<lparr>stdout = [], stderr = [], exitCode = - 2, err = None\<rparr>)"
    by (simp add: execProcess_def m failed_launch_def)
  have 2: "fst (execProcess (demo ''/infra'') ''terragrunt'' [''state'', ''list''] ''/infra/c'' False)
     = Fulfilled \<lparr>stdout = [], stderr = [], exitCode = - 2, err = Some ENOENT\<rparr>"
    by (simp add: execProcess_def demo_def demo_spawn_def launch_failure_def failed_launch_def)
  have 3: "fst (execProcess (demo ''/notdir'') ''terragrunt'' [''state'', ''list''] ''/notdir/c'' False)
     = Rejected (Thrown_error ENOTDIR)"
    by (simp add: execProcess_def d)
  have l: "(- 2 :: int) < 0" by simp
  from launch_failure_is_distinct [OF disjI2 [OF conjI [OF m l]] b t, of True True]
       launch_failure_is_distinct [OF disjI1 [OF d] b t, of False False]
       m l b t d 1 2 3
  show ?thesis by simp
qed

subsection \<open>All stacks\<close>







end
